theory Spec2Isabelle
  imports Complex_Main "HOL-Library.Sublist"
begin

section \<open>Python strings\<close>

text \<open>
  A Python \<open>str\<close> is a sequence of Unicode code points: slicing, \<open>len\<close>, \<open>[::-1]\<close>,
  \<open>in\<close> and \<open>replace\<close> all count code points. The Hebrew literals of the program do
  not fit an 8-bit \<open>char\<close>, so a string is a list of code points, each a natural number.
  An ASCII literal is written \<open>ascii ''...''\<close>; any other literal is the list of its code
  points in hexadecimal (\<open>0x5D0\<close> is alef, \<open>0x5EA\<close> is tav, \<open>0x20\<close> a space).
\<close>

type_synonym pystr = "nat list"

definition ascii :: "string \<Rightarrow> pystr" where
  "ascii s = map of_char s"

datatype error =
    KeyError | IndexError | TTFError | PdfReadError | FileNotFoundError
  | RasterError | OSError | ZeroDivisionError | ValueError

text \<open>\<open>s.startswith(p)\<close>.\<close>

fun startswith :: "pystr \<Rightarrow> pystr \<Rightarrow> bool" where
  "startswith s [] = True"
| "startswith [] (p # ps) = False"
| "startswith (c # s) (p # ps) = (c = p \<and> startswith s ps)"

text \<open>
  \<open>s.find(sub)\<close>: the lowest index at which \<open>sub\<close> occurs in \<open>s\<close>; Python's \<open>-1\<close> is
  \<open>None\<close>. The empty string occurs at index 0 of every string.
\<close>

fun str_find :: "pystr \<Rightarrow> pystr \<Rightarrow> nat option" where
  "str_find [] sub = (if sub = [] then Some 0 else None)"
| "str_find (c # s) sub =
     (if startswith (c # s) sub then Some 0 else map_option Suc (str_find s sub))"

text \<open>\<open>sub in s\<close>.\<close>

definition contains :: "pystr \<Rightarrow> pystr \<Rightarrow> bool" where
  "contains s sub = (str_find s sub \<noteq> None)"

lemma startswith_length: "startswith s p \<Longrightarrow> length p \<le> length s"
  by (induction s p rule: startswith.induct) auto

lemma str_find_bound: "str_find s sub = Some i \<Longrightarrow> i + length sub \<le> length s"
proof (induction s arbitrary: i)
  case Nil
  then show ?case by (simp split: if_splits)
next
  case (Cons c s)
  show ?case
  proof (cases "startswith (c # s) sub")
    case True
    with Cons.prems have "i = 0" by simp
    with startswith_length [OF True] show ?thesis by simp
  next
    case False
    with Cons.prems obtain j where j: "str_find s sub = Some j" "i = Suc j" by auto
    from Cons.IH [OF j(1)] j(2) show ?thesis by simp
  qed
qed

text \<open>
  \<open>s.replace(old, new)\<close> with no count. For a non-empty \<open>old\<close> the occurrences are found
  from left to right, each search resuming after the occurrence just replaced, so the
  occurrences replaced do not overlap. For an empty \<open>old\<close>, \<open>new\<close> is put before every
  character and at the end.
\<close>

function str_replace :: "pystr \<Rightarrow> pystr \<Rightarrow> pystr \<Rightarrow> pystr" where
  "str_replace s old new =
     (if old = [] then new @ concat (map (\<lambda>c. c # new) s)
      else case str_find s old of
             None \<Rightarrow> s
           | Some i \<Rightarrow> take i s @ new @ str_replace (drop (i + length old) s) old new)"
  by pat_completeness auto
termination
proof (relation "measure (\<lambda>(s, old, new). length s)")
  show "wf (measure (\<lambda>(s, old, new). length s))" by simp
next
  fix s old new :: pystr and i :: nat
  assume n: "old \<noteq> []" and f: "str_find s old = Some i"
  from n have "length old \<noteq> 0" by simp
  with str_find_bound [OF f] have "length s - (i + length old) < length s" by arith
  then show "((drop (i + length old) s, old, new), (s, old, new)) \<in> measure (\<lambda>(s, old, new). length s)"
    by simp
qed

declare str_replace.simps [simp del]

text \<open>
  \<open>s.lower()\<close>. On a string of ASCII characters it maps \<open>A\<close>..\<open>Z\<close> to \<open>a\<close>..\<open>z\<close> and
  leaves every other character. On any other string the result comes from the Unicode
  case tables of the interpreter, which are not part of the program: they are the
  parameter \<open>unicode_lower\<close>.
\<close>

definition ascii_lower :: "nat \<Rightarrow> nat" where
  "ascii_lower c = (if 65 \<le> c \<and> c \<le> 90 then c + 32 else c)"

definition str_lower :: "(pystr \<Rightarrow> pystr) \<Rightarrow> pystr \<Rightarrow> pystr" where
  "str_lower unicode_lower s =
     (if list_all (\<lambda>c. c < 128) s then map ascii_lower s else unicode_lower s)"

section \<open>Text Composer: \<open>generate_declaration_text\<close>\<close>

text \<open>The inner dictionaries of \<open>gender_terms\<close> all have the same seven keys.\<close>

record terms =
  title :: pystr
  known :: pystr
  warned :: pystr
  pronoun :: pystr
  expected :: pystr
  confirmed :: pystr
  signed :: pystr

definition male_terms :: terms where
  "male_terms =
     \<lparr>title = [0x5DE, 0x5E8],
      known = [0x5D4, 0x5DE, 0x5D5, 0x5DB, 0x5E8],
      warned = [0x5E9, 0x5D4, 0x5D5, 0x5D6, 0x5D4, 0x5E8],
      pronoun = [0x5E2, 0x5DC, 0x5D9, 0x5D5],
      expected = [0x5E6, 0x5E4, 0x5D5, 0x5D9],
      confirmed = [0x5D0, 0x5D9, 0x5E9, 0x5E8],
      signed = [0x5D7, 0x5EA, 0x5DD]\<rparr>"

definition female_terms :: terms where
  "female_terms =
     \<lparr>title = [0x5D2, 0x5D1],
      known = [0x5D4, 0x5DE, 0x5D5, 0x5DB, 0x5E8, 0x5EA],
      warned = [0x5E9, 0x5D4, 0x5D5, 0x5D6, 0x5D4, 0x5E8, 0x5D4],
      pronoun = [0x5E2, 0x5DC, 0x5D9, 0x5D4],
      expected = [0x5E6, 0x5E4, 0x5D5, 0x5D9, 0x5D4],
      confirmed = [0x5D0, 0x5D9, 0x5E9, 0x5E8, 0x5D4],
      signed = [0x5D7, 0x5EA, 0x5DE, 0x5D4]\<rparr>"

definition gender_terms :: "pystr \<rightharpoonup> terms" where
  "gender_terms = [ascii ''male'' \<mapsto> male_terms, ascii ''female'' \<mapsto> female_terms]"

text \<open>\<open>d[k]\<close> raises \<open>KeyError\<close> on a missing key; \<open>d.get(k, default)\<close> does not.\<close>

definition getitem :: "('k \<rightharpoonup> 'v) \<Rightarrow> 'k \<Rightarrow> error + 'v" where
  "getitem d k = (case d k of None \<Rightarrow> Inl KeyError | Some v \<Rightarrow> Inr v)"

definition dict_get :: "('k \<rightharpoonup> 'v) \<Rightarrow> 'k \<Rightarrow> 'v \<Rightarrow> 'v" where
  "dict_get d k dflt = (case d k of None \<Rightarrow> dflt | Some v \<Rightarrow> v)"

text \<open>The eight lines, as the f-strings build them from the selected terms.\<close>

definition declaration_text_lines :: "terms \<Rightarrow> pystr \<Rightarrow> pystr \<Rightarrow> pystr \<Rightarrow> pystr list" where
  "declaration_text_lines t current_date declarator_name id_number =
     [ [0x20, 0x5D4, 0x5E8, 0x5D9, 0x5E0, 0x5D9, 0x20, 0x5DE, 0x5D0, 0x5E9, 0x5E8, 0x5EA, 0x20,
        0x5DB, 0x5D9, 0x20, 0x5D1, 0x5D9, 0x5D5, 0x5DD, 0x20]
         @ current_date
         @ [0x20, 0x5D4, 0x5D5, 0x5E4, 0x5D9, 0x5E2, 0x20, 0x5D1, 0x5E4, 0x5E0, 0x5D9, 0x20],
       [0x5E2, 0x5D5, 0x22, 0x5D3, 0x20, 0x5DE, 0x5D9, 0x5E8, 0x5D9, 0x20, 0x5E8, 0x5D6, 0x20,
        0x5D1, 0x5DE, 0x5E9, 0x5E8, 0x5D3, 0x5D9, 0x20, 0x5E9, 0x5D1, 0x5E8, 0x5D7, 0x5D5, 0x5D1,
        0x20, 0x5D4, 0x5E9, 0x5E8, 0x5D5, 0x5DF, 0x20, 0x31, 0x20, 0x5E7, 0x5E8, 0x5D9, 0x5D9,
        0x5EA, 0x20, 0x5E9, 0x5D3, 0x5D4, 0x20, 0x5D4, 0x5EA, 0x5E2, 0x5D5, 0x5E4, 0x5D4],
       title t @ ascii '' '' @ declarator_name
         @ [0x20, 0x5EA, 0x2E, 0x5D6, 0x20]
         @ id_number @ ascii '' '' @ known t
         @ [0x20, 0x5DC, 0x5D9, 0x20, 0x5D0, 0x5D9, 0x5E9, 0x5D9, 0x5EA, 0x2C],
       [0x5D5, 0x5DC, 0x5D0, 0x5D7, 0x5E8, 0x20]
         @ warned t
         @ [0x20, 0x5DB, 0x5D9, 0x20]
         @ pronoun t
         @ [0x20, 0x5DC, 0x5D0, 0x5DE, 0x5E8, 0x20, 0x5D0, 0x5EA, 0x20, 0x5D4, 0x5D0, 0x5DE, 0x5EA,
            0x20, 0x5D0, 0x5D7, 0x5E8, 0x5EA, 0x20, 0x5D9, 0x5D4, 0x5D9, 0x5D4],
       expected t
         @ [0x20, 0x5DC, 0x5E2, 0x5D5, 0x5E0, 0x5E9, 0x5D9, 0x5DD, 0x20, 0x5D4, 0x5E7, 0x5D1, 0x5D5,
            0x5E2, 0x5D9, 0x5DD, 0x20, 0x5D1, 0x5D7, 0x5D5, 0x5E7, 0x20, 0x5D0, 0x5DD, 0x20, 0x5DC,
            0x5D0, 0x20, 0x5D9, 0x5E2, 0x5E9, 0x5D4, 0x20, 0x5DB, 0x5DF, 0x2C],
       confirmed t
         @ [0x20, 0x5D0, 0x5EA, 0x20, 0x5E0, 0x5DB, 0x5D5, 0x5E0, 0x5D5, 0x5EA, 0x20, 0x5D4, 0x5D4,
            0x5E6, 0x5D4, 0x5E8, 0x5D4, 0x20, 0x29, 0x20]
         @ signed t
         @ [0x20, 0x5E2, 0x5DC, 0x5D9, 0x5D4, 0x20, 0x5D1, 0x5E4, 0x5E0, 0x5D9, 0x20, 0x28],
       ascii ''**************************************'',
       [0x5DE, 0x5D9, 0x5E8, 0x5D9, 0x20, 0x5E8, 0x5D6, 0x20, 0x5D9, 0x5D5, 0x5E7, 0x5DC, 0x20,
        0x5DE, 0x2E, 0x5E8, 0x20, 0x32, 0x33, 0x31, 0x34, 0x35] ]"

text \<open>
  \<open>terms = gender_terms.get(declarator_gender.lower(), gender_terms['male'])\<close>: the
  default is evaluated first (a subscript, which can raise), then the lookup of the
  lowercased gender.
\<close>

definition generate_declaration_text ::
    "(pystr \<Rightarrow> pystr) \<Rightarrow> pystr \<Rightarrow> pystr \<Rightarrow> pystr \<Rightarrow> pystr \<Rightarrow> error + pystr list" where
  "generate_declaration_text unicode_lower current_date declarator_name id_number declarator_gender =
     (case getitem gender_terms (ascii ''male'') of
        Inl e \<Rightarrow> Inl e
      | Inr dflt \<Rightarrow>
          Inr (declaration_text_lines
                 (dict_get gender_terms (str_lower unicode_lower declarator_gender) dflt)
                 current_date declarator_name id_number))"

section \<open>Directionality processing: \<open>process_hebrew_text\<close>\<close>

text \<open>\<open>line[::-1]\<close> is \<open>rev line\<close>.\<close>

definition process_hebrew_text :: "pystr \<Rightarrow> pystr \<Rightarrow> pystr" where
  "process_hebrew_text line current_date =
     (let reversed_line = rev line;
          reversed_line = str_replace reversed_line (rev current_date) current_date
      in reversed_line)"

text \<open>
  The reference definition of the specification: reverse the line, then scan it from the
  left; wherever the reversed date stands, put the date in its natural form and go on
  after it; every other character is kept. An empty date leaves nothing to restore.
\<close>

function restoreDate :: "pystr \<Rightarrow> pystr \<Rightarrow> pystr" where
  "restoreDate [] date = []"
| "restoreDate (c # s) date =
     (if date \<noteq> [] \<and> prefix (rev date) (c # s)
      then date @ restoreDate (drop (length date) (c # s)) date
      else c # restoreDate s date)"
  by pat_completeness auto
termination
  by (relation "measure (\<lambda>(s, date). length s)") auto

declare restoreDate.simps(2) [simp del]

definition reverse_preserving_date :: "pystr \<Rightarrow> pystr \<Rightarrow> pystr" where
  "reverse_preserving_date line date = restoreDate (rev line) date"

section \<open>Category detection: \<open>detect_declaration_type\<close>\<close>

definition company_marker :: pystr where
  "company_marker =
     [0x5E4, 0x5E8, 0x5D8, 0x5D9, 0x20, 0x5D4, 0x5D7, 0x5D1, 0x5E8, 0x5D4, 0x20,
      0x5D4, 0x5E9, 0x5D5, 0x5DB, 0x5E8, 0x5EA]"

definition foreigner_marker :: pystr where
  "foreigner_marker = [0x5D6, 0x5E8]"

text \<open>
  The loop over the pages, on the text that \<open>extract_text\<close> gives for each page, in page
  order. It returns from inside the loop at the first page that holds a marker.
\<close>

fun detect_in_pages :: "pystr list \<Rightarrow> pystr" where
  "detect_in_pages [] = ascii ''israeli''"
| "detect_in_pages (text # rest) =
     (if contains text company_marker then ascii ''company''
      else if contains text foreigner_marker then ascii ''foreigner''
      else detect_in_pages rest)"

section \<open>Documents, images and the file system\<close>

text \<open>
  What the PDF and image libraries do is outside the program; the model keeps what
  the program's own steps decide. The content of a page is a term that records how it
  was put together: the content of a source page is opaque (\<open>Original\<close>), the overlay
  is the list of strings drawn with their positions, \<open>Over bottom top\<close> is a page merge,
  \<open>Scaled\<close> a transformation of the content, \<open>Picture\<close> a bitmap placed on a page. A
  bitmap is the rendering of a page content at some pixel size, with the images pasted
  on it since. An image read from a file is its pixel data (opaque), its size and its
  mode, which says what channels it has.
\<close>

datatype img_mode =
    Mode_1 | Mode_L | Mode_LA | Mode_RGBA | Mode_RGBa | Mode_RGB | Mode_P | Mode_CMYK

datatype img = Img (img_data: nat) (img_size: "nat \<times> nat") (img_mode: img_mode)

datatype content =
    Original nat
  | Drawn "(real \<times> real \<times> pystr) list"
  | Over content content
  | Scaled real real content
  | Picture bitmap
and bitmap =
    Rendered content "real \<times> real" "nat \<times> nat"
  | Pasted bitmap img "int \<times> int" img

record page =
  mediabox :: "real \<times> real"
  content :: content

datatype fsnode = PdfFile "page list" | ImageFile img | OtherFile | Directory

datatype fs_op = Wrote pystr | Removed pystr

text \<open>
  The state the program changes: the files by path, the history of the changes made to
  them (oldest first), and whether the font \<open>Arial\<close> is registered with the PDF library.
\<close>

record world =
  files :: "pystr \<rightharpoonup> fsnode"
  oplog :: "fs_op list"
  arial_registered :: bool

text \<open>
  What the program reads from its surroundings and from the libraries without changing
  it: the Unicode case tables, today's date as \<open>strftime("%d-%m-%Y")\<close> gives it, the
  width of a string in Arial at 12 points, whether \<open>Arial.ttf\<close> can be loaded, whether
  the rasterizer runs, the pixel size it gives a page of a given size, which paths the
  operating system lets the program create, overwrite or remove, the directory of the
  signature images, and the text that the PDF library extracts from a page content.
\<close>

record env =
  unicode_lower :: "pystr \<Rightarrow> pystr"
  today :: pystr
  stringWidth :: "pystr \<Rightarrow> real"
  arial_ttf_ok :: bool
  poppler_ok :: bool
  raster_size :: "real \<times> real \<Rightarrow> nat \<times> nat"
  writable :: "pystr \<Rightarrow> bool"
  signatures_dir :: pystr
  extract_text :: "content \<Rightarrow> pystr"

text \<open>
  A step of the program takes the world and gives an error or a value, and the world
  after it: the changes made before an exception stay.
\<close>

type_synonym 'a io = "world \<Rightarrow> (error + 'a) \<times> world"

definition io_return :: "'a \<Rightarrow> 'a io" where
  "io_return x = (\<lambda>w. (Inr x, w))"

definition io_bind :: "'a io \<Rightarrow> ('a \<Rightarrow> 'b io) \<Rightarrow> 'b io" where
  "io_bind m k = (\<lambda>w. case m w of (Inl e, w') \<Rightarrow> (Inl e, w') | (Inr x, w') \<Rightarrow> k x w')"

definition io_lift :: "error + 'a \<Rightarrow> 'a io" where
  "io_lift r = (\<lambda>w. (r, w))"

text \<open>\<open>xs[0]\<close> raises \<open>IndexError\<close> on an empty list.\<close>

definition first :: "'a list \<Rightarrow> error + 'a" where
  "first xs = (case xs of [] \<Rightarrow> Inl IndexError | x # _ \<Rightarrow> Inr x)"

text \<open>Float division raises on a zero divisor.\<close>

definition py_div :: "real \<Rightarrow> real \<Rightarrow> error + real" where
  "py_div a b = (if b = 0 then Inl ZeroDivisionError else Inr (a / b))"

text \<open>\<open>os.path.join(a, b)\<close> of \<open>posixpath\<close>, for two components.\<close>

definition os_path_join :: "pystr \<Rightarrow> pystr \<Rightarrow> pystr" where
  "os_path_join a b =
     (if startswith b (ascii ''/'') then b
      else if a = [] \<or> last a = 0x2F then a @ b
      else a @ ascii ''/'' @ b)"

definition os_path_isfile :: "pystr \<Rightarrow> world \<Rightarrow> bool" where
  "os_path_isfile path w =
     (case files w path of None \<Rightarrow> False | Some Directory \<Rightarrow> False | Some _ \<Rightarrow> True)"

definition os_remove :: "env \<Rightarrow> pystr \<Rightarrow> unit io" where
  "os_remove env path =
     (\<lambda>w. if os_path_isfile path w \<and> writable env path
          then (Inr (), w\<lparr>files := (files w)(path := None), oplog := oplog w @ [Removed path]\<rparr>)
          else (Inl OSError, w))"

text \<open>
  \<open>pdfrw.PdfReader(path)\<close>: the pages of the document at the path. Whatever keeps it
  from reading a PDF there, a missing file included, is the library's own parse error.
\<close>

definition pdfrw_read :: "pystr \<Rightarrow> page list io" where
  "pdfrw_read path =
     (\<lambda>w. case files w path of Some (PdfFile pages) \<Rightarrow> (Inr pages, w) | _ \<Rightarrow> (Inl PdfReadError, w))"

text \<open>
  \<open>PyPDF2.PdfReader\<close> on a path, or on the file that \<open>open(path, 'rb')\<close> gives: opening
  a missing file or a directory raises the operating system's error, and a file that is
  not a PDF the library's read error.
\<close>

definition pypdf2_read :: "pystr \<Rightarrow> page list io" where
  "pypdf2_read path =
     (\<lambda>w. case files w path of
            None \<Rightarrow> (Inl FileNotFoundError, w)
          | Some (PdfFile pages) \<Rightarrow> (Inr pages, w)
          | Some Directory \<Rightarrow> (Inl OSError, w)
          | Some _ \<Rightarrow> (Inl PdfReadError, w))"

text \<open>Writing a PDF creates the file or replaces its whole content.\<close>

definition write_pdf :: "env \<Rightarrow> pystr \<Rightarrow> page list \<Rightarrow> unit io" where
  "write_pdf env path pages =
     (\<lambda>w. if writable env path \<and> files w path \<noteq> Some Directory
          then (Inr (), w\<lparr>files := (files w)(path \<mapsto> PdfFile pages), oplog := oplog w @ [Wrote path]\<rparr>)
          else (Inl OSError, w))"

text \<open>\<open>Image.open(path)\<close>.\<close>

definition image_open :: "pystr \<Rightarrow> img io" where
  "image_open path =
     (\<lambda>w. case files w path of
            None \<Rightarrow> (Inl FileNotFoundError, w)
          | Some (ImageFile i) \<Rightarrow> (Inr i, w)
          | Some _ \<Rightarrow> (Inl OSError, w))"

text \<open>
  \<open>im.resize(size)\<close> gives the same picture at the new size, whatever its shape was, in
  the same mode.
\<close>

definition resize :: "nat \<times> nat \<Rightarrow> img \<Rightarrow> img" where
  "resize sz i = Img (img_data i) sz (img_mode i)"

text \<open>
  \<open>page.paste(im, box, mask)\<close> takes as mask an image of mode \<open>1\<close>, \<open>L\<close>, \<open>LA\<close>,
  \<open>RGBA\<close> or \<open>RGBa\<close> and raises on any other (bad transparency mask); the bitmap is
  then as it was.
\<close>

definition mask_ok :: "img \<Rightarrow> bool" where
  "mask_ok m =
     (case img_mode m of
        Mode_1 \<Rightarrow> True | Mode_L \<Rightarrow> True | Mode_LA \<Rightarrow> True | Mode_RGBA \<Rightarrow> True
      | Mode_RGBa \<Rightarrow> True | _ \<Rightarrow> False)"

definition paste :: "bitmap \<Rightarrow> img \<Rightarrow> int \<times> int \<Rightarrow> img \<Rightarrow> error + bitmap" where
  "paste page0 im box m =
     (if mask_ok m then Inr (Pasted page0 im box m) else Inl ValueError)"

text \<open>
  \<open>convert_from_path\<close>: one bitmap for each page of the document, in page order, at the
  rasterizer's pixel size for the page.
\<close>

definition rasterize :: "env \<Rightarrow> page \<Rightarrow> bitmap" where
  "rasterize env p = Rendered (content p) (mediabox p) (raster_size env (mediabox p))"

definition convert_from_path :: "env \<Rightarrow> pystr \<Rightarrow> bitmap list io" where
  "convert_from_path env path =
     (\<lambda>w. case files w path of
            Some (PdfFile pages) \<Rightarrow>
              if poppler_ok env then (Inr (map (rasterize env) pages), w) else (Inl RasterError, w)
          | _ \<Rightarrow> (Inl RasterError, w))"

fun bitmap_size :: "bitmap \<Rightarrow> nat \<times> nat" where
  "bitmap_size (Rendered c box px) = px"
| "bitmap_size (Pasted b i box m) = bitmap_size b"

text \<open>
  Saving bitmaps as a PDF with the image library's default resolution of 72 dots per
  inch: each bitmap is one page, one point for each pixel.
\<close>

definition bitmap_page :: "bitmap \<Rightarrow> page" where
  "bitmap_page b =
     \<lparr>mediabox = (real (fst (bitmap_size b)), real (snd (bitmap_size b))), content = Picture b\<rparr>"

text \<open>\<open>page.scale_by(factor)\<close> scales the content and the page boxes by the one factor.\<close>

definition scale_by :: "real \<Rightarrow> page \<Rightarrow> page" where
  "scale_by factor p =
     \<lparr>mediabox = (fst (mediabox p) * factor, snd (mediabox p) * factor),
      content = Scaled factor factor (content p)\<rparr>"

text \<open>
  \<open>detect_declaration_type\<close>: open and read the document, then the loop over the
  extracted text of its pages.
\<close>

definition detect_declaration_type :: "env \<Rightarrow> pystr \<Rightarrow> pystr io" where
  "detect_declaration_type env file_path =
     io_bind (pypdf2_read file_path) (\<lambda>pages.
     io_return (detect_in_pages (map (\<lambda>p. extract_text env (content p)) pages)))"

section \<open>The pipeline\<close>

definition register_hebrew_font :: "env \<Rightarrow> unit io" where
  "register_hebrew_font env =
     (\<lambda>w. if arial_ttf_ok env then (Inr (), w\<lparr>arial_registered := True\<rparr>) else (Inl TTFError, w))"

subsection \<open>Overlay Renderer: \<open>create_declaration_pdf\<close>\<close>

definition letter :: "real \<times> real" where
  "letter = (612, 792)"

text \<open>The loop over the lines; \<open>y_position\<close> is the loop's variable.\<close>

fun draw_lines :: "env \<Rightarrow> pystr \<Rightarrow> real \<Rightarrow> pystr list \<Rightarrow> (real \<times> real \<times> pystr) list" where
  "draw_lines env current_date y_position [] = []"
| "draw_lines env current_date y_position (line # rest) =
     (let page_width = fst letter;
          line_height = 14;
          processed_line = process_hebrew_text line current_date;
          text_width = stringWidth env processed_line;
          x_position = (page_width - text_width) / 2 - 100
      in (x_position, y_position, processed_line)
           # draw_lines env current_date (y_position - line_height) rest)"

text \<open>
  The result is the document in the buffer: one page of letter size with the strings
  drawn. \<open>save\<close> writes the page only when something was drawn on it, so with no line
  the document has no page. Setting a font that is not registered raises.
\<close>

definition create_declaration_pdf :: "env \<Rightarrow> pystr list \<Rightarrow> pystr \<Rightarrow> page list io" where
  "create_declaration_pdf env signature_text_lines current_date =
     (\<lambda>w. if arial_registered w
          then (Inr (if signature_text_lines = [] then []
                     else [\<lparr>mediabox = letter,
                            content = Drawn (draw_lines env current_date 300 signature_text_lines)\<rparr>]),
                w)
          else (Inl KeyError, w))"

subsection \<open>Page Merger: \<open>merge_pdfs\<close>\<close>

text \<open>
  \<open>PageMerge(first_page).add(merge_page).render()\<close> redraws the first page as its old
  content with the overlay over it and keeps the page's boxes. The writer gets
  \<open>first_page\<close> and nothing else.
\<close>

definition merge_pdfs :: "env \<Rightarrow> pystr \<Rightarrow> page list \<Rightarrow> pystr io" where
  "merge_pdfs env input_pdf_path declaration_pdf_stream =
     io_bind (pdfrw_read input_pdf_path) (\<lambda>reader.
     io_bind (io_lift (first reader)) (\<lambda>first_page.
     io_bind (io_lift (first declaration_pdf_stream)) (\<lambda>merge_page.
     let first_page = first_page\<lparr>content := Over (content first_page) (content merge_page)\<rparr>;
         output_file = ascii ''signed_declaration.pdf''
     in io_bind (write_pdf env output_file [first_page]) (\<lambda>_.
        io_return output_file))))"

subsection \<open>Signature Stamper: \<open>add_signatures\<close>\<close>

text \<open>
  The pastes on \<open>pages[0]\<close>, which change the bitmap in place: the first argument of
  \<open>paste\<close> is the image, the second the corner where it goes, the third the mask. A
  paste that raises ends the function before anything is written.
\<close>

definition paste_signatures :: "pystr \<Rightarrow> img \<Rightarrow> img \<Rightarrow> bitmap \<Rightarrow> error + bitmap" where
  "paste_signatures declaration_type signature domicar_signature page0 =
     (case paste page0 signature (350, 1320) signature of
        Inl e \<Rightarrow> Inl e
      | Inr page0 \<Rightarrow>
          if declaration_type = ascii ''foreigner''
          then paste page0 domicar_signature (- 30, 1820) domicar_signature
          else if declaration_type = ascii ''company''
          then paste page0 domicar_signature (- 30, 900) domicar_signature
          else if declaration_type = ascii ''israeli''
          then paste page0 domicar_signature (- 30, 1650) domicar_signature
          else Inr page0)"

definition add_signatures :: "env \<Rightarrow> pystr \<Rightarrow> pystr \<Rightarrow> pystr \<Rightarrow> (pystr \<rightharpoonup> pystr) \<Rightarrow> unit io" where
  "add_signatures env input_pdf_path output_pdf_path declaration_type signature_paths =
     io_bind (convert_from_path env input_pdf_path) (\<lambda>pages.
     io_bind (io_lift (getitem signature_paths (ascii ''signature''))) (\<lambda>path1.
     io_bind (image_open path1) (\<lambda>image1.
     let signature = resize (600, 600) image1
     in io_bind (io_lift (getitem signature_paths (ascii ''domicar_signature''))) (\<lambda>path2.
        io_bind (image_open path2) (\<lambda>image2.
        let domicar_signature = resize (650, 650) image2
        in io_bind (io_lift (first pages)) (\<lambda>page0.
           io_bind (io_lift (paste_signatures declaration_type signature domicar_signature page0))
             (\<lambda>page0.
           write_pdf env output_pdf_path (map bitmap_page (page0 # drop 1 pages)))))))))"

subsection \<open>Size Normalizer: \<open>adjust_pdf_size\<close>\<close>

definition adjust_pdf_size :: "env \<Rightarrow> pystr \<Rightarrow> unit io" where
  "adjust_pdf_size env output_pdf_path =
     io_bind (pypdf2_read output_pdf_path) (\<lambda>pdf.
     io_bind (io_lift (first pdf)) (\<lambda>page0.
     let current_width = fst (mediabox page0);
         current_height = snd (mediabox page0);
         desired_width = 595.28;
         desired_height = 841.89
     in io_bind (io_lift (py_div desired_width current_width)) (\<lambda>scale_factor_width.
        io_bind (io_lift (py_div desired_height current_height)) (\<lambda>scale_factor_height.
        write_pdf env output_pdf_path [scale_by scale_factor_width page0]))))"

subsection \<open>\<open>sign_declaration\<close>\<close>

text \<open>\<open>SIGNATURE_PATHS\<close> of \<open>config.py\<close>.\<close>

definition SIGNATURE_PATHS :: "env \<Rightarrow> (pystr \<rightharpoonup> pystr)" where
  "SIGNATURE_PATHS env =
     [ascii ''signature'' \<mapsto> os_path_join (signatures_dir env) (ascii ''placeholder_signature_1.png''),
      ascii ''domicar_signature'' \<mapsto>
        os_path_join (signatures_dir env) (ascii ''placeholder_signature_2.png'')]"

definition sign_declaration ::
    "env \<Rightarrow> pystr \<Rightarrow> pystr \<Rightarrow> pystr \<Rightarrow> pystr \<Rightarrow> pystr \<Rightarrow> pystr \<Rightarrow> pystr io" where
  "sign_declaration env name id_number input_pdf_path output_folder declaration_type declarator_gender =
     io_bind (register_hebrew_font env) (\<lambda>_.
     let current_date = today env;
         id_number_reversed = rev id_number
     in io_bind (io_lift (generate_declaration_text (unicode_lower env) current_date name
                            id_number_reversed declarator_gender)) (\<lambda>signature_text_lines.
        io_bind (create_declaration_pdf env signature_text_lines current_date) (\<lambda>declaration_pdf_stream.
        io_bind (merge_pdfs env input_pdf_path declaration_pdf_stream) (\<lambda>merged_pdf_path.
        let output_pdf_path = os_path_join output_folder (ascii ''final_output_with_signature.pdf'')
        in io_bind (\<lambda>w. if os_path_isfile output_pdf_path w then os_remove env output_pdf_path w
                         else (Inr (), w)) (\<lambda>_.
           io_bind (add_signatures env merged_pdf_path output_pdf_path declaration_type
                      (SIGNATURE_PATHS env)) (\<lambda>_.
           io_bind (adjust_pdf_size env output_pdf_path) (\<lambda>_.
           io_return output_pdf_path)))))))"

section \<open>A concrete run\<close>

text \<open>
  One environment and one file system, on which the functions are evaluated below: a
  rasterizer at 200 dots per inch, a one-page and a two-page source document of letter
  size, the two signature images, both with an alpha channel, and an output directory
  that already holds a file at the output path. In the two-page document the text of the first page holds the
  foreigner marker and the text of the second page the company marker.
\<close>

definition example_extract_text :: "content \<Rightarrow> pystr" where
  "example_extract_text c =
     (if c = Original 1 then foreigner_marker else if c = Original 2 then company_marker else [])"

definition example_env :: env where
  "example_env =
     \<lparr>unicode_lower = (\<lambda>s. s),
      today = ascii ''03-11-2026'',
      stringWidth = (\<lambda>s. 6 * real (length s)),
      arial_ttf_ok = True,
      poppler_ok = True,
      raster_size = (\<lambda>box. (nat \<lceil>fst box * 200 / 72\<rceil>, nat \<lceil>snd box * 200 / 72\<rceil>)),
      writable = (\<lambda>path. True),
      signatures_dir = ascii ''signatures'',
      extract_text = example_extract_text\<rparr>"

definition example_world :: world where
  "example_world =
     \<lparr>files =
        [ascii ''in.pdf'' \<mapsto> PdfFile [\<lparr>mediabox = (612, 792), content = Original 0\<rparr>],
         ascii ''two.pdf'' \<mapsto> PdfFile [\<lparr>mediabox = (612, 792), content = Original 1\<rparr>,
                                        \<lparr>mediabox = (612, 792), content = Original 2\<rparr>],
         ascii ''signatures/placeholder_signature_1.png'' \<mapsto> ImageFile (Img 1 (300, 120) Mode_RGBA),
         ascii ''signatures/placeholder_signature_2.png'' \<mapsto> ImageFile (Img 2 (400, 400) Mode_RGBA),
         ascii ''out'' \<mapsto> Directory,
         ascii ''out/final_output_with_signature.pdf'' \<mapsto> OtherFile],
      oplog = [],
      arial_registered = False\<rparr>"

section \<open>Facts of the concrete run\<close>

lemma example_files:
  "files example_world (ascii ''in.pdf'') = Some (PdfFile [\<lparr>mediabox = (612, 792), content = Original 0\<rparr>])"
  "files example_world (ascii ''two.pdf'') = Some (PdfFile [\<lparr>mediabox = (612, 792), content = Original 1\<rparr>,
                                        \<lparr>mediabox = (612, 792), content = Original 2\<rparr>])"
  "files example_world (ascii ''signatures/placeholder_signature_1.png'') = Some (ImageFile (Img 1 (300, 120) Mode_RGBA))"
  "files example_world (ascii ''signatures/placeholder_signature_2.png'') = Some (ImageFile (Img 2 (400, 400) Mode_RGBA))"
  "files example_world (ascii ''out/final_output_with_signature.pdf'') = Some OtherFile"
  "files example_world (ascii ''signed_declaration.pdf'') = None"
  by (simp_all add: example_world_def ascii_def)

lemma example_paths:
  "os_path_join (ascii ''out'') (ascii ''final_output_with_signature.pdf'')
     = ascii ''out/final_output_with_signature.pdf''"
  "os_path_join (ascii ''signatures'') (ascii ''placeholder_signature_1.png'')
     = ascii ''signatures/placeholder_signature_1.png''"
  "os_path_join (ascii ''signatures'') (ascii ''placeholder_signature_2.png'')
     = ascii ''signatures/placeholder_signature_2.png''"
  by (simp_all add: os_path_join_def ascii_def)

lemma example_raster: "raster_size example_env (612, 792) = (1700, 2200)"
  by (simp add: example_env_def)

lemma example_texts:
  "extract_text example_env (Original 0) = []"
  "extract_text example_env (Original 1) = foreigner_marker"
  "extract_text example_env (Original (Suc 0)) = foreigner_marker"
  "extract_text example_env (Original 2) = company_marker"
  by (simp_all add: example_env_def example_extract_text_def)

lemma marker_facts:
  "contains company_marker company_marker" "\<not> contains company_marker foreigner_marker"
  "contains foreigner_marker foreigner_marker" "\<not> contains foreigner_marker company_marker"
  "\<not> contains [] company_marker" "\<not> contains [] foreigner_marker"
  by (simp_all add: contains_def company_marker_def foreigner_marker_def)

section \<open>Properties of the directionality processing\<close>

lemma startswith_prefix: "startswith s p = prefix p s"
  by (induction s p rule: startswith.induct) auto

lemma restoreDate_no_occurrence: "str_find s (rev d) = None \<Longrightarrow> restoreDate s d = s"
proof (induction s)
  case Nil
  then show ?case by simp
next
  case (Cons c s)
  from Cons.prems have ns: "\<not> startswith (c # s) (rev d)" and r: "str_find s (rev d) = None"
    by (auto split: if_splits)
  from ns have "\<not> prefix (rev d) (c # s)" by (simp add: startswith_prefix)
  then have "restoreDate (c # s) d = c # restoreDate s d" by (simp add: restoreDate.simps(2))
  with Cons.IH [OF r] show ?case by simp
qed

lemma restoreDate_first_occurrence:
  "d \<noteq> [] \<Longrightarrow> str_find s (rev d) = Some i \<Longrightarrow>
   restoreDate s d = take i s @ d @ restoreDate (drop (i + length d) s) d"
proof (induction s arbitrary: i)
  case Nil
  then show ?case by (simp split: if_splits)
next
  case (Cons c s)
  show ?case
  proof (cases "startswith (c # s) (rev d)")
    case True
    with Cons.prems have "i = 0" by simp
    moreover from True have "prefix (rev d) (c # s)" by (simp add: startswith_prefix)
    ultimately show ?thesis using Cons.prems(1) by (simp add: restoreDate.simps(2))
  next
    case False
    with Cons.prems obtain j where j: "str_find s (rev d) = Some j" "i = Suc j" by auto
    from False have "\<not> prefix (rev d) (c # s)" by (simp add: startswith_prefix)
    then have "restoreDate (c # s) d = c # restoreDate s d" by (simp add: restoreDate.simps(2))
    with Cons.IH [OF Cons.prems(1) j(1)] j(2) show ?thesis by simp
  qed
qed

lemma restoreDate_empty_date: "restoreDate s [] = s"
  by (induction s) (simp_all add: restoreDate.simps(2))

lemma str_replace_empty: "str_replace s [] [] = s"
  by (induction s) (simp_all add: str_replace.simps)

lemma str_replace_restoreDate: "str_replace s (rev d) d = restoreDate s d"
proof (cases "d = []")
  case True
  then show ?thesis by (simp add: str_replace_empty restoreDate_empty_date)
next
  case False
  show ?thesis
  proof (induction s rule: length_induct)
    case (1 s)
    show ?case
    proof (cases "str_find s (rev d)")
      case None
      then show ?thesis using False
        by (simp add: str_replace.simps [of s] restoreDate_no_occurrence)
    next
      case (Some i)
      from str_find_bound [OF Some] False
      have "length (drop (i + length d) s) < length s" by (cases d) auto
      with 1 have "str_replace (drop (i + length d) s) (rev d) d = restoreDate (drop (i + length d) s) d"
        by blast
      with Some False show ?thesis
        by (simp add: str_replace.simps [of s] restoreDate_first_occurrence)
    qed
  qed
qed

lemma str_replace_length:
  "length new = length old \<Longrightarrow> length (str_replace s old new) = length s"
proof (induction s old new rule: str_replace.induct)
  case (1 s old new)
  show ?case
  proof (cases "old = []")
    case True
    with 1(2) have "new = []" by simp
    with True show ?thesis by (simp add: str_replace_empty)
  next
    case False
    show ?thesis
    proof (cases "str_find s old")
      case None
      with False show ?thesis by (simp add: str_replace.simps [of s])
    next
      case (Some i)
      from 1(1) [OF False Some 1(2)]
      have "length (str_replace (drop (i + length old) s) old new) = length s - (i + length old)"
        by simp
      with str_find_bound [OF Some] False Some 1(2) show ?thesis
        by (simp add: str_replace.simps [of s])
    qed
  qed
qed

lemma startswith_self_append: "startswith (p @ s) p"
  by (induction p) auto

lemma startswith_hd: "startswith s p \<Longrightarrow> p \<noteq> [] \<Longrightarrow> hd p \<in> set s"
  by (induction s p rule: startswith.induct) auto

lemma str_find_absent: "p \<noteq> [] \<Longrightarrow> hd p \<notin> set s \<Longrightarrow> str_find s p = None"
proof (induction s)
  case Nil
  then show ?case by simp
next
  case (Cons c s)
  from Cons.prems startswith_hd [of "c # s" p] have "\<not> startswith (c # s) p" by blast
  with Cons show ?case by simp
qed

lemma str_find_after:
  "p \<noteq> [] \<Longrightarrow> hd p \<notin> set s1 \<Longrightarrow> str_find (s1 @ p @ s2) p = Some (length s1)"
proof (induction s1)
  case Nil
  then obtain c ps where "p = c # ps" by (cases p) auto
  with startswith_self_append [of p s2] show ?case by simp
next
  case (Cons c s1)
  from Cons.prems have "c \<noteq> hd p" by auto
  with Cons.prems(1) have "\<not> startswith (c # s1 @ p @ s2) p" by (cases p) auto
  with Cons show ?case by simp
qed

lemma process_hebrew_text_embedded_date:
  assumes "current_date \<noteq> []"
    and "set current_date \<inter> set before = {}" and "set current_date \<inter> set after = {}"
  shows "process_hebrew_text (before @ current_date @ after) current_date
           = rev after @ current_date @ rev before"
proof -
  let ?p = "rev current_date"
  from assms(1) have p: "?p \<noteq> []" and h: "hd ?p \<in> set current_date"
    by (simp_all add: hd_rev)
  from h assms(2,3) have na: "hd ?p \<notin> set (rev after)" and nb: "hd ?p \<notin> set (rev before)"
    by auto
  have f: "str_find (rev after @ ?p @ rev before) ?p = Some (length (rev after))"
    using str_find_after [OF p na] .
  have r: "str_replace (rev before) ?p current_date = rev before"
    using str_find_absent [OF p nb] p by (simp add: str_replace.simps [of "rev before"])
  have "str_replace (rev after @ ?p @ rev before) ?p current_date
          = rev after @ current_date @ rev before"
    using f p r by (simp add: str_replace.simps [of "rev after @ ?p @ rev before"])
  then show ?thesis by (simp add: process_hebrew_text_def)
qed

text \<open>
  Claim C5. For every line and every date string, \<open>process_hebrew_text\<close> equals the
  reference definition of the specification: the line reversed character by character,
  in which every occurrence of the reversed date, found from the left, stands as the
  date in its natural form, and every other character stays where the reversal put it.
  So for a line that holds the date between two texts that share no character with it,
  as the first line of the declaration does for a date of digits and hyphens, the
  result is the second text reversed, the date as it is, and the first text reversed.
\<close>

theorem process_hebrew_text_refines:
  "process_hebrew_text line current_date = reverse_preserving_date line current_date
   \<and> (current_date \<noteq> [] \<and> set current_date \<inter> set before = {} \<and> set current_date \<inter> set after = {}
        \<longrightarrow> process_hebrew_text (before @ current_date @ after) current_date
              = rev after @ current_date @ rev before)"
proof (intro conjI impI)
  show "process_hebrew_text line current_date = reverse_preserving_date line current_date"
    by (simp add: process_hebrew_text_def reverse_preserving_date_def str_replace_restoreDate)
next
  assume "current_date \<noteq> [] \<and> set current_date \<inter> set before = {} \<and> set current_date \<inter> set after = {}"
  then show "process_hebrew_text (before @ current_date @ after) current_date
      = rev after @ current_date @ rev before"
    using process_hebrew_text_embedded_date by blast
qed

theorem process_hebrew_text_refines_witness:
  "ascii ''03-11-2026'' \<noteq> []
   \<and> set (ascii ''03-11-2026'') \<inter> set (ascii ''ab '') = {}
   \<and> set (ascii ''03-11-2026'') \<inter> set (ascii '' cd'') = {}
   \<and> process_hebrew_text (ascii ''ab 03-11-2026 cd'') (ascii ''03-11-2026'') = ascii ''dc 03-11-2026 ba''
   \<and> reverse_preserving_date (ascii ''ab 03-11-2026 cd'') (ascii ''03-11-2026'') = ascii ''dc 03-11-2026 ba''"
proof -
  let ?line = "ascii ''ab '' @ ascii ''03-11-2026'' @ ascii '' cd''"
  have h: "ascii ''03-11-2026'' \<noteq> []"
    "set (ascii ''03-11-2026'') \<inter> set (ascii ''ab '') = {}"
    "set (ascii ''03-11-2026'') \<inter> set (ascii '' cd'') = {}"
    by (simp_all add: ascii_def)
  have e: "ascii ''ab 03-11-2026 cd'' = ?line"
    "rev (ascii '' cd'') @ ascii ''03-11-2026'' @ rev (ascii ''ab '') = ascii ''dc 03-11-2026 ba''"
    by (simp_all add: ascii_def)
  note t = process_hebrew_text_refines [of ?line "ascii ''03-11-2026''" "ascii ''ab ''" "ascii '' cd''"]
  from t have a: "process_hebrew_text ?line (ascii ''03-11-2026'')
           = reverse_preserving_date ?line (ascii ''03-11-2026'')"
    by (rule conjunct1)
  from t h have "process_hebrew_text ?line (ascii ''03-11-2026'')
           = rev (ascii '' cd'') @ ascii ''03-11-2026'' @ rev (ascii ''ab '')"
    by blast
  then have p: "process_hebrew_text ?line (ascii ''03-11-2026'') = ascii ''dc 03-11-2026 ba''"
    by (simp only: e(2))
  have q: "reverse_preserving_date ?line (ascii ''03-11-2026'') = ascii ''dc 03-11-2026 ba''"
    by (rule trans [OF a [symmetric] p])
  show ?thesis unfolding e(1) using h p q by blast
qed

text \<open>
  Claim C9. For every line and every date string, the processed line has exactly as
  many characters as the line.
\<close>

theorem process_hebrew_text_length:
  "length (process_hebrew_text line current_date) = length line"
  by (simp add: process_hebrew_text_def str_replace_length)

section \<open>Properties of the Text Composer\<close>

lemma selected_terms:
  "dict_get gender_terms k male_terms = (if k = ascii ''female'' then female_terms else male_terms)"
  by (simp add: dict_get_def gender_terms_def)

lemma generate_declaration_text_Inr:
  "generate_declaration_text ul d n i g =
     Inr (declaration_text_lines (dict_get gender_terms (str_lower ul g) male_terms) d n i)"
  by (simp add: generate_declaration_text_def getitem_def gender_terms_def ascii_def)

lemma ascii_lower_ge: "ascii_lower c < 128 \<Longrightarrow> c < 128"
  by (simp add: ascii_lower_def split: if_splits)

lemma ascii_variant_all_ascii:
  "list_all (\<lambda>c. c < 128) (map ascii_lower g) \<Longrightarrow> list_all (\<lambda>c. c < 128) g"
  by (induction g) (auto dest: ascii_lower_ge)

lemma str_lower_variant:
  assumes "map ascii_lower g = v" and "list_all (\<lambda>c. c < 128) v"
  shows "str_lower ul g = v"
proof -
  from assms have "list_all (\<lambda>c. c < 128) g" using ascii_variant_all_ascii by blast
  with assms(1) show ?thesis by (simp add: str_lower_def)
qed

lemma str_lower_male: "str_lower ul (ascii ''male'') = ascii ''male''"
  by (simp add: str_lower_def ascii_def ascii_lower_def)

lemma str_lower_female: "str_lower ul (ascii ''female'') = ascii ''female''"
  by (simp add: str_lower_def ascii_def ascii_lower_def)

text \<open>
  Claim C7, as amended. The Text Composer never raises, and the terms it selects depend
  on the lowercased gender only: the female terms when the lowercased gender is
  \<open>female\<close>, the male terms in every other case, which covers \<open>male\<close> and every
  gender whose lowercased form is neither of the two recognized values.
\<close>

theorem generate_declaration_text_gender:
  "generate_declaration_text ul current_date declarator_name id_number declarator_gender =
     Inr (declaration_text_lines
            (if str_lower ul declarator_gender = ascii ''female'' then female_terms else male_terms)
            current_date declarator_name id_number)"
  by (simp add: generate_declaration_text_Inr selected_terms)

text \<open>
  The claim as first stated fails: \<open>Female\<close> is neither \<open>male\<close> nor \<open>female\<close>, and
  the composer does not fall back to the male terms on it.
\<close>

theorem gender_fallback_counterexample:
  "ascii ''Female'' \<noteq> ascii ''male'' \<and> ascii ''Female'' \<noteq> ascii ''female''
   \<and> generate_declaration_text (\<lambda>s. s) [] [] [] (ascii ''Female'')
       \<noteq> Inr (declaration_text_lines male_terms [] [] [])"
proof -
  have "str_lower (\<lambda>s. s) (ascii ''Female'') = ascii ''female''"
    by (simp add: str_lower_def ascii_def ascii_lower_def)
  then have "generate_declaration_text (\<lambda>s. s) [] [] [] (ascii ''Female'')
     = Inr (declaration_text_lines female_terms [] [] [])"
    by (simp add: generate_declaration_text_Inr selected_terms)
  moreover have "declaration_text_lines female_terms [] [] [] \<noteq> declaration_text_lines male_terms [] [] []"
    by (simp add: declaration_text_lines_def female_terms_def male_terms_def)
  ultimately show ?thesis by (simp add: ascii_def)
qed

text \<open>
  Claim C10. A capitalization variant of a recognized gender value is a string that
  \<open>A\<close>..\<open>Z\<close> \<open>\<rightarrow>\<close> \<open>a\<close>..\<open>z\<close> maps to that value. For every date, name and identifier it
  gives exactly the lines of the lowercase value.
\<close>

theorem gender_case_insensitive:
  assumes "v = ascii ''male'' \<or> v = ascii ''female''" and "map ascii_lower g = v"
  shows "generate_declaration_text ul d n i g = generate_declaration_text ul d n i v"
proof -
  from assms(1) have a: "list_all (\<lambda>c. c < 128) v" by (auto simp: ascii_def)
  from assms(1) have "str_lower ul v = v" using str_lower_male str_lower_female by auto
  with str_lower_variant [OF assms(2) a] show ?thesis
    by (simp add: generate_declaration_text_Inr)
qed

theorem gender_case_insensitive_witness:
  "map ascii_lower (ascii ''FEMALE'') = ascii ''female''
   \<and> generate_declaration_text (\<lambda>s. s) (ascii ''03-11-2026'') [0x5D0, 0x5D1, 0x5D9] (ascii ''987654321'') (ascii ''FEMALE'')
     = generate_declaration_text (\<lambda>s. s) (ascii ''03-11-2026'') [0x5D0, 0x5D1, 0x5D9] (ascii ''987654321'') (ascii ''female'')"
proof -
  have h: "map ascii_lower (ascii ''FEMALE'') = ascii ''female''"
    by (simp add: ascii_def ascii_lower_def)
  from gender_case_insensitive [OF disjI2 [OF refl] h] h show ?thesis by blast
qed

section \<open>Properties of the category detection\<close>

lemma detect_in_pages_map:
  "detect_in_pages (map f pages) =
     (case find (\<lambda>p. contains (f p) company_marker \<or> contains (f p) foreigner_marker) pages of
        None \<Rightarrow> ascii ''israeli''
      | Some p \<Rightarrow> if contains (f p) company_marker then ascii ''company'' else ascii ''foreigner'')"
  by (induction pages) auto

text \<open>
  Claim C2, as amended. For every readable PDF, the detection decides at the first page,
  in page order, whose extracted text holds either marker: \<open>company\<close> when that page
  holds the company marker, also when it holds the foreigner marker too, and
  \<open>foreigner\<close> otherwise; when no page holds a marker the result is \<open>israeli\<close>.
\<close>

theorem detect_declaration_type_first_marked_page:
  assumes "files w file_path = Some (PdfFile pages)"
  shows "detect_declaration_type env file_path w =
     (Inr (case find (\<lambda>p. contains (extract_text env (content p)) company_marker
                          \<or> contains (extract_text env (content p)) foreigner_marker) pages of
             None \<Rightarrow> ascii ''israeli''
           | Some p \<Rightarrow> if contains (extract_text env (content p)) company_marker
                       then ascii ''company'' else ascii ''foreigner''), w)"
  using assms
  by (simp add: detect_declaration_type_def io_bind_def pypdf2_read_def io_return_def detect_in_pages_map)

theorem detect_declaration_type_first_marked_page_witness:
  "files example_world (ascii ''two.pdf'') = Some (PdfFile [\<lparr>mediabox = (612, 792), content = Original 1\<rparr>,
                                        \<lparr>mediabox = (612, 792), content = Original 2\<rparr>])
   \<and> detect_declaration_type example_env (ascii ''two.pdf'') example_world
       = (Inr (ascii ''foreigner''), example_world)"
  using detect_declaration_type_first_marked_page [OF example_files(2), of example_env] example_files(2)
  by (simp add: example_texts marker_facts)

text \<open>
  The claim as first stated fails: the company marker stands in the text of the second
  page of the two-page document, and the result is \<open>foreigner\<close>, decided at the first
  page.
\<close>

theorem detect_declaration_type_company_counterexample:
  "files example_world (ascii ''two.pdf'') = Some (PdfFile [\<lparr>mediabox = (612, 792), content = Original 1\<rparr>,
                                        \<lparr>mediabox = (612, 792), content = Original 2\<rparr>])
   \<and> contains (extract_text example_env (Original 2)) company_marker
   \<and> detect_declaration_type example_env (ascii ''two.pdf'') example_world
       = (Inr (ascii ''foreigner''), example_world)
   \<and> ascii ''foreigner'' \<noteq> ascii ''company''"
  by (simp add: example_files(2) detect_declaration_type_def io_bind_def pypdf2_read_def io_return_def
      example_texts marker_facts) (simp add: ascii_def)

section \<open>Properties of the stages\<close>

lemmas io_defs = io_bind_def io_lift_def io_return_def

lemma io_bind_Inr: "m w = (Inr x, w1) \<Longrightarrow> io_bind m k w = k x w1"
  by (simp add: io_bind_def)

lemma io_bind_lift_Inr [simp]: "io_bind (io_lift (Inr x)) k w = k x w"
  by (simp add: io_bind_def io_lift_def)

lemma io_bind_lift_Inl [simp]: "io_bind (io_lift (Inl e)) k w = (Inl e, w)"
  by (simp add: io_bind_def io_lift_def)

lemma first_Cons [simp]: "first (x # xs) = Inr x"
  by (simp add: first_def)

lemma first_Nil [simp]: "first [] = Inl IndexError"
  by (simp add: first_def)

lemma pdfrw_read_ok: "files w path = Some (PdfFile pages) \<Longrightarrow> pdfrw_read path w = (Inr pages, w)"
  by (simp add: pdfrw_read_def)

lemma pypdf2_read_ok: "files w path = Some (PdfFile pages) \<Longrightarrow> pypdf2_read path w = (Inr pages, w)"
  by (simp add: pypdf2_read_def)

lemma write_pdf_ok:
  "writable env path \<Longrightarrow> files w path \<noteq> Some Directory \<Longrightarrow>
   write_pdf env path pages w =
     (Inr (), w\<lparr>files := (files w)(path \<mapsto> PdfFile pages), oplog := oplog w @ [Wrote path]\<rparr>)"
  by (simp add: write_pdf_def)

lemma merge_pdfs_ok:
  assumes "files w input_pdf_path = Some (PdfFile (p # ps))"
    and "writable env (ascii ''signed_declaration.pdf'')"
    and "files w (ascii ''signed_declaration.pdf'') \<noteq> Some Directory"
  shows "merge_pdfs env input_pdf_path (q # qs) w =
     (Inr (ascii ''signed_declaration.pdf''),
      w\<lparr>files := (files w)(ascii ''signed_declaration.pdf'' \<mapsto>
                               PdfFile [p\<lparr>content := Over (content p) (content q)\<rparr>]),
        oplog := oplog w @ [Wrote (ascii ''signed_declaration.pdf'')]\<rparr>)"
  using assms
  by (simp add: merge_pdfs_def io_bind_Inr [OF pdfrw_read_ok] io_bind_Inr [OF write_pdf_ok] io_return_def Let_def)

lemma adjust_pdf_size_ok:
  assumes "files w path = Some (PdfFile (p # ps))"
    and "fst (mediabox p) \<noteq> 0" and "snd (mediabox p) \<noteq> 0"
    and "writable env path"
  shows "adjust_pdf_size env path w =
     (Inr (), w\<lparr>files := (files w)(path \<mapsto> PdfFile [scale_by (595.28 / fst (mediabox p)) p]),
               oplog := oplog w @ [Wrote path]\<rparr>)"
  using assms
  by (simp add: adjust_pdf_size_def io_bind_Inr [OF pypdf2_read_ok] py_div_def write_pdf_ok)

lemma convert_from_path_ok:
  "files w path = Some (PdfFile pages) \<Longrightarrow> poppler_ok env \<Longrightarrow>
   convert_from_path env path w = (Inr (map (rasterize env) pages), w)"
  by (simp add: convert_from_path_def)

lemma image_open_ok: "files w path = Some (ImageFile i) \<Longrightarrow> image_open path w = (Inr i, w)"
  by (simp add: image_open_def)

lemma add_signatures_ok:
  assumes "files w input_pdf_path = Some (PdfFile (p # ps))"
    and "poppler_ok env"
    and "signature_paths (ascii ''signature'') = Some path1"
    and "files w path1 = Some (ImageFile image1)"
    and "signature_paths (ascii ''domicar_signature'') = Some path2"
    and "files w path2 = Some (ImageFile image2)"
    and "writable env output_pdf_path"
    and "files w output_pdf_path \<noteq> Some Directory"
    and "paste_signatures declaration_type (resize (600, 600) image1) (resize (650, 650) image2)
           (rasterize env p) = Inr stamped"
  shows "add_signatures env input_pdf_path output_pdf_path declaration_type signature_paths w =
     (Inr (),
      w\<lparr>files := (files w)(output_pdf_path \<mapsto> PdfFile
           (bitmap_page stamped # map bitmap_page (map (rasterize env) ps))),
        oplog := oplog w @ [Wrote output_pdf_path]\<rparr>)"
  using assms
  by (simp add: add_signatures_def io_bind_Inr [OF convert_from_path_ok] getitem_def
      io_bind_Inr [OF image_open_ok] write_pdf_ok)


lemma mask_ok_resize [simp]: "mask_ok (resize sz i) = mask_ok i"
  by (simp add: mask_ok_def resize_def)

lemma mask_ok_Img [simp]: "mask_ok (Img d sz (img_mode i)) = mask_ok i"
  by (simp add: mask_ok_def)

lemma paste_signatures_eq:
  "paste_signatures declaration_type signature domicar_signature page0 =
     (if \<not> mask_ok signature then Inl ValueError
      else if declaration_type = ascii ''foreigner''
      then (if mask_ok domicar_signature
            then Inr (Pasted (Pasted page0 signature (350, 1320) signature)
                        domicar_signature (- 30, 1820) domicar_signature)
            else Inl ValueError)
      else if declaration_type = ascii ''company''
      then (if mask_ok domicar_signature
            then Inr (Pasted (Pasted page0 signature (350, 1320) signature)
                        domicar_signature (- 30, 900) domicar_signature)
            else Inl ValueError)
      else if declaration_type = ascii ''israeli''
      then (if mask_ok domicar_signature
            then Inr (Pasted (Pasted page0 signature (350, 1320) signature)
                        domicar_signature (- 30, 1650) domicar_signature)
            else Inl ValueError)
      else Inr (Pasted page0 signature (350, 1320) signature))"
  by (simp add: paste_signatures_def paste_def)

lemma bitmap_size_paste_signatures:
  "paste_signatures dt s d b = Inr b' \<Longrightarrow> bitmap_size b' = bitmap_size b"
  by (auto simp: paste_signatures_eq split: if_splits)

lemma merge_pdfs_Inl: "merge_pdfs env i s w = (Inl e, w1) \<Longrightarrow> w1 = w"
  by (auto simp: merge_pdfs_def io_defs pdfrw_read_def write_pdf_def first_def Let_def
      split: option.splits fsnode.splits list.splits if_splits)

lemma merge_pdfs_Inr:
  "merge_pdfs env i s w = (Inr x, w1) \<Longrightarrow>
     (\<exists>p ps. files w i = Some (PdfFile (p # ps))) \<and> (\<exists>q qs. s = q # qs)
     \<and> writable env (ascii ''signed_declaration.pdf'')
     \<and> files w (ascii ''signed_declaration.pdf'') \<noteq> Some Directory"
  by (auto simp: merge_pdfs_def io_defs pdfrw_read_def write_pdf_def first_def Let_def
      split: option.splits fsnode.splits list.splits if_splits)

lemma add_signatures_Inl: "add_signatures env i out dt sp w = (Inl e, w1) \<Longrightarrow> w1 = w"
  by (auto simp: add_signatures_def io_defs convert_from_path_def getitem_def image_open_def
      write_pdf_def first_def Let_def
      split: option.splits fsnode.splits list.splits if_splits sum.splits)

lemma add_signatures_Inr:
  "add_signatures env i out dt sp w = (Inr x, w1) \<Longrightarrow>
     (\<exists>p ps path1 image1 path2 image2 stamped.
         files w i = Some (PdfFile (p # ps))
         \<and> sp (ascii ''signature'') = Some path1 \<and> files w path1 = Some (ImageFile image1)
         \<and> sp (ascii ''domicar_signature'') = Some path2 \<and> files w path2 = Some (ImageFile image2)
         \<and> paste_signatures dt (resize (600, 600) image1) (resize (650, 650) image2)
               (rasterize env p) = Inr stamped)
     \<and> poppler_ok env \<and> writable env out \<and> files w out \<noteq> Some Directory"
  by (auto simp: add_signatures_def io_defs convert_from_path_def getitem_def image_open_def
      write_pdf_def first_def Let_def
      split: option.splits fsnode.splits list.splits if_splits sum.splits)

lemma adjust_pdf_size_Inl: "adjust_pdf_size env path w = (Inl e, w1) \<Longrightarrow> w1 = w"
  by (auto simp: adjust_pdf_size_def io_defs pypdf2_read_def py_div_def write_pdf_def first_def Let_def
      split: option.splits fsnode.splits list.splits if_splits)

lemma adjust_pdf_size_Inr:
  "adjust_pdf_size env path w = (Inr x, w1) \<Longrightarrow>
     (\<exists>p ps. files w path = Some (PdfFile (p # ps)) \<and> fst (mediabox p) \<noteq> 0 \<and> snd (mediabox p) \<noteq> 0)
     \<and> writable env path"
  by (auto simp: adjust_pdf_size_def io_defs pypdf2_read_def py_div_def write_pdf_def first_def Let_def
      split: option.splits fsnode.splits list.splits if_splits)

text \<open>
  Claim C1. On the two-page document, \<open>merge_pdfs\<close> writes the intermediate file
  \<open>signed_declaration.pdf\<close> with the first page, the overlay over its content, and
  with no other page: the second page of the source is not in the merged document.
\<close>

theorem merge_pdfs_two_page_source:
  "merge_pdfs example_env (ascii ''two.pdf'') [\<lparr>mediabox = letter, content = Drawn []\<rparr>] example_world =
     (Inr (ascii ''signed_declaration.pdf''),
      example_world\<lparr>files := (files example_world)(ascii ''signed_declaration.pdf'' \<mapsto>
                      PdfFile [\<lparr>mediabox = (612, 792), content = Over (Original 1) (Drawn [])\<rparr>]),
                    oplog := [Wrote (ascii ''signed_declaration.pdf'')]\<rparr>)"
proof -
  have "writable example_env (ascii ''signed_declaration.pdf'')" by (simp add: example_env_def)
  from merge_pdfs_ok [OF example_files(2) this, of "\<lparr>mediabox = letter, content = Drawn []\<rparr>" "[]"]
  show ?thesis by (simp add: example_files(6)) (simp add: example_world_def)
qed



text \<open>
  Claim C3. The size normalizer computes both factors: a zero width or a zero height of
  page 0 raises at the division. Otherwise the page is scaled by the horizontal factor
  \<open>595.28 / current_width\<close> in both directions, so its height becomes
  \<open>current_height * (595.28 / current_width)\<close>; the vertical factor takes no part in the
  result.
\<close>

theorem adjust_pdf_size_width_factor_only:
  assumes "files w output_pdf_path = Some (PdfFile (page0 # rest))"
    and "mediabox page0 = (current_width, current_height)"
    and "writable env output_pdf_path"
  shows "adjust_pdf_size env output_pdf_path w =
     (if current_width = 0 \<or> current_height = 0 then (Inl ZeroDivisionError, w)
      else (Inr (),
            w\<lparr>files := (files w)(output_pdf_path \<mapsto> PdfFile
                   [\<lparr>mediabox = (current_width * (595.28 / current_width),
                                  current_height * (595.28 / current_width)),
                     content = Scaled (595.28 / current_width) (595.28 / current_width) (content page0)\<rparr>]),
              oplog := oplog w @ [Wrote output_pdf_path]\<rparr>))"
  using assms
  by (simp add: adjust_pdf_size_def io_defs pypdf2_read_def py_div_def write_pdf_def first_def Let_def
      scale_by_def)

theorem adjust_pdf_size_width_factor_only_witness:
  "files example_world (ascii ''in.pdf'') = Some (PdfFile [\<lparr>mediabox = (612, 792), content = Original 0\<rparr>])
   \<and> writable example_env (ascii ''in.pdf'')
   \<and> adjust_pdf_size example_env (ascii ''in.pdf'') example_world =
       (Inr (),
        example_world\<lparr>files := (files example_world)(ascii ''in.pdf'' \<mapsto> PdfFile
               [\<lparr>mediabox = (595.28, 327404 / 425),
                 content = Scaled (14882 / 15300) (14882 / 15300) (Original 0)\<rparr>]),
          oplog := [Wrote (ascii ''in.pdf'')]\<rparr>)"
proof -
  have w: "writable example_env (ascii ''in.pdf'')" by (simp add: example_env_def)
  have l: "oplog example_world = []" by (simp add: example_world_def)
  from adjust_pdf_size_width_factor_only [OF example_files(1) _ w, of 612 792] example_files(1) w l
  show ?thesis by simp
qed

section \<open>Properties of the pipeline\<close>

lemma os_path_join_last: "b \<noteq> [] \<Longrightarrow> last (os_path_join a b) = last b"
  by (simp add: os_path_join_def)

lemma os_path_join_length: "length b \<le> length (os_path_join a b)"
  by (simp add: os_path_join_def)

lemma output_not_intermediate:
  "os_path_join output_folder (ascii ''final_output_with_signature.pdf'') \<noteq> ascii ''signed_declaration.pdf''"
proof
  assume "os_path_join output_folder (ascii ''final_output_with_signature.pdf'') = ascii ''signed_declaration.pdf''"
  then have "length (os_path_join output_folder (ascii ''final_output_with_signature.pdf''))
             = length (ascii ''signed_declaration.pdf'')" by simp
  with os_path_join_length [of "ascii ''final_output_with_signature.pdf''" output_folder]
  show False by (simp add: ascii_def)
qed

lemma png_not_pdf:
  assumes "last b = 0x67" and "b \<noteq> []" and "last c = 0x66" and "c \<noteq> []"
  shows "os_path_join a b \<noteq> os_path_join d c" and "os_path_join a b \<noteq> c"
proof -
  from assms have "last (os_path_join a b) \<noteq> last (os_path_join d c)"
    by (simp add: os_path_join_last)
  then show "os_path_join a b \<noteq> os_path_join d c" by auto
  from assms have "last (os_path_join a b) \<noteq> last c"
    by (simp add: os_path_join_last)
  then show "os_path_join a b \<noteq> c" by auto
qed

lemma signature_paths_distinct:
  "os_path_join sd (ascii ''placeholder_signature_1.png'')
     \<noteq> os_path_join output_folder (ascii ''final_output_with_signature.pdf'')"
  "os_path_join sd (ascii ''placeholder_signature_2.png'')
     \<noteq> os_path_join output_folder (ascii ''final_output_with_signature.pdf'')"
  "os_path_join sd (ascii ''placeholder_signature_1.png'') \<noteq> ascii ''signed_declaration.pdf''"
  "os_path_join sd (ascii ''placeholder_signature_2.png'') \<noteq> ascii ''signed_declaration.pdf''"
  by (rule png_not_pdf; simp add: ascii_def)+

lemma declaration_text_lines_nonempty [simp]: "declaration_text_lines t d n i \<noteq> []"
  by (simp add: declaration_text_lines_def)

lemma SIGNATURE_PATHS_keys:
  "SIGNATURE_PATHS env (ascii ''signature'')
     = Some (os_path_join (signatures_dir env) (ascii ''placeholder_signature_1.png''))"
  "SIGNATURE_PATHS env (ascii ''domicar_signature'')
     = Some (os_path_join (signatures_dir env) (ascii ''placeholder_signature_2.png''))"
  by (simp_all add: SIGNATURE_PATHS_def ascii_def)

lemma sign_declaration_ok:
  fixes env :: env and w :: world
  assumes "arial_ttf_ok env"
    and src: "files w input_pdf_path = Some (PdfFile (p # ps))"
    and wi: "writable env (ascii ''signed_declaration.pdf'')"
      "files w (ascii ''signed_declaration.pdf'') \<noteq> Some Directory"
    and out: "out = os_path_join output_folder (ascii ''final_output_with_signature.pdf'')"
    and wo: "writable env out" "files w out \<noteq> Some Directory"
    and pop: "poppler_ok env"
    and s1: "files w (os_path_join (signatures_dir env) (ascii ''placeholder_signature_1.png''))
               = Some (ImageFile image1)"
    and s2: "files w (os_path_join (signatures_dir env) (ascii ''placeholder_signature_2.png''))
               = Some (ImageFile image2)"
    and nz: "fst (raster_size env (mediabox p)) \<noteq> 0" "snd (raster_size env (mediabox p)) \<noteq> 0"
    and merged: "merged = p\<lparr>content := Over (content p)
        (Drawn (draw_lines env (today env) 300
           (declaration_text_lines (dict_get gender_terms (str_lower (unicode_lower env) declarator_gender) male_terms)
              (today env) name (rev id_number))))\<rparr>"
    and pasted: "paste_signatures declaration_type (resize (600, 600) image1) (resize (650, 650) image2)
                   (rasterize env merged) = Inr page0"
    and stamped: "stamped = bitmap_page page0"
  shows "sign_declaration env name id_number input_pdf_path output_folder declaration_type declarator_gender w =
     (Inr out,
      w\<lparr>files := (files w)(ascii ''signed_declaration.pdf'' \<mapsto> PdfFile [merged],
                             out \<mapsto> PdfFile [scale_by (595.28 / fst (mediabox stamped)) stamped]),
        oplog := oplog w @ [Wrote (ascii ''signed_declaration.pdf'')]
                   @ (if os_path_isfile out w then [Removed out] else [])
                   @ [Wrote out, Wrote out],
        arial_registered := True\<rparr>)"
proof -
  let ?I = "ascii ''signed_declaration.pdf''"
  let ?S1 = "os_path_join (signatures_dir env) (ascii ''placeholder_signature_1.png'')"
  let ?S2 = "os_path_join (signatures_dir env) (ascii ''placeholder_signature_2.png'')"
  have ne: "out \<noteq> ?I" "?S1 \<noteq> out" "?S2 \<noteq> out" "?S1 \<noteq> ?I" "?S2 \<noteq> ?I"
    using output_not_intermediate signature_paths_distinct by (simp_all add: out)
  define w0 where "w0 = w\<lparr>arial_registered := True\<rparr>"
  define w1 where "w1 = w0\<lparr>files := (files w0)(?I \<mapsto> PdfFile [merged]), oplog := oplog w0 @ [Wrote ?I]\<rparr>"
  define w2 where "w2 = (if os_path_isfile out w1
      then w1\<lparr>files := (files w1)(out := None), oplog := oplog w1 @ [Removed out]\<rparr> else w1)"
  define w3 where "w3 = w2\<lparr>files := (files w2)(out \<mapsto> PdfFile [stamped]), oplog := oplog w2 @ [Wrote out]\<rparr>"
  define w4 where "w4 = w3\<lparr>files := (files w3)(out \<mapsto> PdfFile [scale_by (595.28 / fst (mediabox stamped)) stamped]),
      oplog := oplog w3 @ [Wrote out]\<rparr>"
  have r0: "register_hebrew_font env w = (Inr (), w0)"
    using assms(1) by (simp add: register_hebrew_font_def w0_def)
  have c0: "create_declaration_pdf env (declaration_text_lines t d n i) (today env) w0
      = (Inr [\<lparr>mediabox = letter,
               content = Drawn (draw_lines env (today env) 300 (declaration_text_lines t d n i))\<rparr>], w0)"
    for t d n i
    by (simp add: create_declaration_pdf_def w0_def declaration_text_lines_nonempty)
  have m0: "merge_pdfs env input_pdf_path
      [\<lparr>mediabox = letter, content = Drawn (draw_lines env (today env) 300
           (declaration_text_lines (dict_get gender_terms (str_lower (unicode_lower env) declarator_gender) male_terms)
              (today env) name (rev id_number)))\<rparr>] w0 = (Inr ?I, w1)"
    using src wi by (simp add: merge_pdfs_ok w0_def w1_def merged)
  have f1: "os_path_isfile out w1 = os_path_isfile out w"
    using ne by (simp add: os_path_isfile_def w1_def w0_def)
  have rm: "(if os_path_isfile out w1 then os_remove env out w1 else (Inr (), w1)) = (Inr (), w2)"
    using wo by (simp add: os_remove_def w2_def)
  have files2: "files w2 ?I = Some (PdfFile [merged])" "files w2 ?S1 = Some (ImageFile image1)"
    "files w2 ?S2 = Some (ImageFile image2)" "files w2 out \<noteq> Some Directory"
    using ne s1 s2 wo by (simp_all add: w2_def w1_def w0_def)
  have a2: "add_signatures env ?I out declaration_type (SIGNATURE_PATHS env) w2 = (Inr (), w3)"
    using add_signatures_ok [OF files2(1) pop SIGNATURE_PATHS_keys(1) files2(2)
        SIGNATURE_PATHS_keys(2) files2(3) wo(1) files2(4) pasted]
    by (simp add: w3_def stamped)
  have mb: "mediabox stamped = (real (fst (raster_size env (mediabox p))), real (snd (raster_size env (mediabox p))))"
    by (simp add: stamped bitmap_page_def bitmap_size_paste_signatures [OF pasted] rasterize_def merged)
  have a3: "adjust_pdf_size env out w3 = (Inr (), w4)"
    using adjust_pdf_size_ok [of w3 out stamped "[]" env] wo(1) nz
    by (simp add: w3_def w4_def mb)
  have run: "sign_declaration env name id_number input_pdf_path output_folder declaration_type declarator_gender w
      = (Inr out, w4)"
    by (simp add: sign_declaration_def io_bind_def io_lift_def io_return_def Let_def
        generate_declaration_text_Inr r0 c0 m0 out [symmetric] rm a2 a3)
  have "w4 = w\<lparr>files := (files w)(?I \<mapsto> PdfFile [merged],
                             out \<mapsto> PdfFile [scale_by (595.28 / fst (mediabox stamped)) stamped]),
        oplog := oplog w @ [Wrote ?I]
                   @ (if os_path_isfile out w then [Removed out] else [])
                   @ [Wrote out, Wrote out],
        arial_registered := True\<rparr>"
    using f1 by (simp add: w4_def w3_def w2_def w1_def w0_def)
  with run show ?thesis by simp
qed

lemma sign_declaration_cases:
  fixes env :: env and w w' :: world
  assumes run: "sign_declaration env name id_number input_pdf_path output_folder declaration_type
                  declarator_gender w = (r, w')"
    and out: "out = os_path_join output_folder (ascii ''final_output_with_signature.pdf'')"
  shows "(\<exists>e ops. r = Inl e \<and> oplog w' = oplog w @ ops
            \<and> prefix ops ([Wrote (ascii ''signed_declaration.pdf'')]
                           @ (if os_path_isfile out w then [Removed out] else [])
                           @ [Wrote out]))
       \<or> (r = Inr out \<and> arial_ttf_ok env
            \<and> writable env (ascii ''signed_declaration.pdf'')
            \<and> files w (ascii ''signed_declaration.pdf'') \<noteq> Some Directory
            \<and> writable env out \<and> files w out \<noteq> Some Directory \<and> poppler_ok env
            \<and> (\<exists>p ps image1 image2 page0.
                   files w input_pdf_path = Some (PdfFile (p # ps))
                   \<and> fst (raster_size env (mediabox p)) \<noteq> 0 \<and> snd (raster_size env (mediabox p)) \<noteq> 0
                   \<and> files w (os_path_join (signatures_dir env) (ascii ''placeholder_signature_1.png''))
                       = Some (ImageFile image1)
                   \<and> files w (os_path_join (signatures_dir env) (ascii ''placeholder_signature_2.png''))
                       = Some (ImageFile image2)
                   \<and> paste_signatures declaration_type (resize (600, 600) image1) (resize (650, 650) image2)
                         (rasterize env (p\<lparr>content := Over (content p)
                            (Drawn (draw_lines env (today env) 300
                               (declaration_text_lines
                                  (dict_get gender_terms (str_lower (unicode_lower env) declarator_gender)
                                     male_terms)
                                  (today env) name (rev id_number))))\<rparr>))
                       = Inr page0))"
proof -
  let ?I = "ascii ''signed_declaration.pdf''"
  let ?S1 = "os_path_join (signatures_dir env) (ascii ''placeholder_signature_1.png'')"
  let ?S2 = "os_path_join (signatures_dir env) (ascii ''placeholder_signature_2.png'')"
  let ?lines = "declaration_text_lines
      (dict_get gender_terms (str_lower (unicode_lower env) declarator_gender) male_terms)
      (today env) name (rev id_number)"
  let ?overlay = "\<lparr>mediabox = letter, content = Drawn (draw_lines env (today env) 300 ?lines)\<rparr>"
  let ?run = "sign_declaration env name id_number input_pdf_path output_folder declaration_type
                  declarator_gender w"
  note defs = sign_declaration_def io_bind_def io_lift_def io_return_def Let_def
      generate_declaration_text_Inr
  have ne: "out \<noteq> ?I" "?S1 \<noteq> out" "?S2 \<noteq> out" "?S1 \<noteq> ?I" "?S2 \<noteq> ?I"
    using output_not_intermediate signature_paths_distinct by (simp_all add: out)
  show ?thesis
  proof (cases "arial_ttf_ok env")
    case False
    then have "?run = (Inl TTFError, w)"
      by (simp add: defs register_hebrew_font_def)
    with run show ?thesis by auto
  next
    case font: True
    define w0 where "w0 = w\<lparr>arial_registered := True\<rparr>"
    have r0: "register_hebrew_font env w = (Inr (), w0)"
      using font by (simp add: register_hebrew_font_def w0_def)
    have c0: "create_declaration_pdf env ?lines (today env) w0 = (Inr [?overlay], w0)"
      by (simp add: create_declaration_pdf_def w0_def)
    obtain r1 w1 where m: "merge_pdfs env input_pdf_path [?overlay] w0 = (r1, w1)"
      by (cases "merge_pdfs env input_pdf_path [?overlay] w0") blast
    show ?thesis
    proof (cases r1)
      case (Inl e)
      with m merge_pdfs_Inl have "w1 = w0" by blast
      with m Inl have "?run = (Inl e, w0)"
        by (simp add: defs r0 c0)
      with run show ?thesis by (auto simp: w0_def)
    next
      case (Inr x)
      from merge_pdfs_Inr [OF m [unfolded Inr]] obtain p ps
        where src: "files w input_pdf_path = Some (PdfFile (p # ps))"
          and wi: "writable env ?I" "files w ?I \<noteq> Some Directory"
        by (auto simp: w0_def)
      define merged where "merged = p\<lparr>content := Over (content p)
          (Drawn (draw_lines env (today env) 300 ?lines))\<rparr>"
      have w1: "r1 = Inr ?I"
          "w1 = w0\<lparr>files := (files w0)(?I \<mapsto> PdfFile [merged]), oplog := oplog w0 @ [Wrote ?I]\<rparr>"
        using m merge_pdfs_ok [of w0 input_pdf_path p ps env ?overlay "[]"] src wi
        by (simp_all add: w0_def merged_def)
      have f1: "os_path_isfile out w1 = os_path_isfile out w"
        using ne by (simp add: os_path_isfile_def w1 w0_def)
      show ?thesis
      proof (cases "os_path_isfile out w \<and> \<not> writable env out")
        case True
        with f1 have "(if os_path_isfile out w1 then os_remove env out w1 else (Inr (), w1)) = (Inl OSError, w1)"
          by (simp add: os_remove_def)
        with m w1(1) have "?run = (Inl OSError, w1)"
          by (simp add: defs r0 c0 out [symmetric])
        with run True show ?thesis by (auto simp: w1 w0_def)
      next
        case False
        define w2 where "w2 = (if os_path_isfile out w1
            then w1\<lparr>files := (files w1)(out := None), oplog := oplog w1 @ [Removed out]\<rparr> else w1)"
        have rm: "(if os_path_isfile out w1 then os_remove env out w1 else (Inr (), w1)) = (Inr (), w2)"
          using False f1 by (auto simp add: os_remove_def w2_def)
        have l2: "oplog w2 = oplog w @ [Wrote ?I] @ (if os_path_isfile out w then [Removed out] else [])"
          using f1 by (simp add: w2_def w1 w0_def)
        obtain r3 w3 where a: "add_signatures env ?I out declaration_type (SIGNATURE_PATHS env) w2 = (r3, w3)"
          by (cases "add_signatures env ?I out declaration_type (SIGNATURE_PATHS env) w2") blast
        show ?thesis
        proof (cases r3)
          case (Inl e)
          with a add_signatures_Inl have "w3 = w2" by blast
          with a Inl m w1(1) have "?run = (Inl e, w2)"
            by (simp add: defs r0 c0 out [symmetric] rm)
          with run l2 show ?thesis by auto
        next
          case (Inr u)
          have files2: "files w2 ?I = Some (PdfFile [merged])"
            using ne by (simp add: w2_def w1 w0_def)
          from add_signatures_Inr [OF a [unfolded Inr]] files2 obtain image1 image2 page0
            where pop: "poppler_ok env"
              and s1: "files w2 ?S1 = Some (ImageFile image1)"
              and s2: "files w2 ?S2 = Some (ImageFile image2)"
              and wo: "writable env out" "files w2 out \<noteq> Some Directory"
              and pasted: "paste_signatures declaration_type (resize (600, 600) image1)
                  (resize (650, 650) image2) (rasterize env merged) = Inr page0"
            by (auto simp: SIGNATURE_PATHS_keys)
          from s1 s2 ne have s: "files w ?S1 = Some (ImageFile image1)" "files w ?S2 = Some (ImageFile image2)"
            by (simp_all add: w2_def w1 w0_def split: if_splits)
          from wo(2) ne have wo': "files w out \<noteq> Some Directory"
            by (auto simp add: w2_def w1 w0_def os_path_isfile_def split: if_splits option.splits fsnode.splits)
          define stamped where "stamped = bitmap_page page0"
          define w3' where "w3' = w2\<lparr>files := (files w2)(out \<mapsto> PdfFile [stamped]),
              oplog := oplog w2 @ [Wrote out]\<rparr>"
          have a2: "add_signatures env ?I out declaration_type (SIGNATURE_PATHS env) w2 = (Inr (), w3')"
            using add_signatures_ok [OF files2 pop SIGNATURE_PATHS_keys(1) s1 SIGNATURE_PATHS_keys(2) s2
                wo pasted]
            by (simp add: w3'_def stamped_def)
          have mb: "mediabox stamped
              = (real (fst (raster_size env (mediabox p))), real (snd (raster_size env (mediabox p))))"
            by (simp add: stamped_def bitmap_page_def bitmap_size_paste_signatures [OF pasted]
                rasterize_def merged_def)
          obtain r4 w4 where j: "adjust_pdf_size env out w3' = (r4, w4)"
            by (cases "adjust_pdf_size env out w3'") blast
          show ?thesis
          proof (cases r4)
            case (Inl e)
            with j adjust_pdf_size_Inl have "w4 = w3'" by blast
            with j Inl m w1(1) have "?run = (Inl e, w3')"
              by (simp add: defs r0 c0 out [symmetric] rm a2)
            with run l2 show ?thesis by (auto simp: w3'_def)
          next
            case (Inr v)
            from adjust_pdf_size_Inr [OF j [unfolded Inr]]
            have nz: "fst (raster_size env (mediabox p)) \<noteq> 0" "snd (raster_size env (mediabox p)) \<noteq> 0"
              by (simp_all add: w3'_def mb)
            from j Inr m w1(1) have "\<exists>wf. ?run = (Inr out, wf)"
              by (simp add: defs r0 c0 out [symmetric] rm a2)
            with run have "r = Inr out" by auto
            with font src nz wi wo(1) wo' pop s pasted [unfolded merged_def] show ?thesis by blast
          qed
        qed
      qed
    qed
  qed
qed

lemma example_run:
  "sign_declaration example_env [0x5D0, 0x5D1, 0x5D9] (ascii ''123456789'') (ascii ''in.pdf'') (ascii ''out'')
     (ascii ''israeli'') (ascii ''male'') example_world =
   (Inr (ascii ''out/final_output_with_signature.pdf''),
    example_world\<lparr>files := (files example_world)
         (ascii ''signed_declaration.pdf'' \<mapsto> PdfFile
            [\<lparr>mediabox = (612, 792),
              content = Over (Original 0)
                (Drawn (draw_lines example_env (ascii ''03-11-2026'') 300
                   (declaration_text_lines male_terms (ascii ''03-11-2026'') [0x5D0, 0x5D1, 0x5D9]
                      (rev (ascii ''123456789'')))))\<rparr>],
          ascii ''out/final_output_with_signature.pdf'' \<mapsto> PdfFile
            [scale_by (595.28 / 1700)
               (bitmap_page
                  (Pasted
                     (Pasted
                        (Rendered (Over (Original 0)
                           (Drawn (draw_lines example_env (ascii ''03-11-2026'') 300
                              (declaration_text_lines male_terms (ascii ''03-11-2026'') [0x5D0, 0x5D1, 0x5D9]
                                 (rev (ascii ''123456789''))))))
                           (612, 792) (1700, 2200))
                        (Img 1 (600, 600) Mode_RGBA) (350, 1320) (Img 1 (600, 600) Mode_RGBA))
                     (Img 2 (650, 650) Mode_RGBA) (- 30, 1650) (Img 2 (650, 650) Mode_RGBA)))]),
      oplog := [Wrote (ascii ''signed_declaration.pdf''), Removed (ascii ''out/final_output_with_signature.pdf''),
                Wrote (ascii ''out/final_output_with_signature.pdf''),
                Wrote (ascii ''out/final_output_with_signature.pdf'')],
      arial_registered := True\<rparr>)"
proof -
  have e: "arial_ttf_ok example_env" "poppler_ok example_env" "writable example_env path"
    "signatures_dir example_env = ascii ''signatures''" "today example_env = ascii ''03-11-2026''"
    "unicode_lower example_env = (\<lambda>s. s)" for path
    by (simp_all add: example_env_def)
  have t: "dict_get gender_terms (str_lower (\<lambda>s. s) (ascii ''male'')) male_terms = male_terms"
    by (simp add: selected_terms str_lower_male) (simp add: ascii_def)
  have f: "os_path_isfile (ascii ''out/final_output_with_signature.pdf'') example_world"
    by (simp add: os_path_isfile_def example_files)
  have l: "oplog example_world = []" by (simp add: example_world_def)
  have o: "files example_world (ascii ''out/final_output_with_signature.pdf'') \<noteq> Some Directory"
    "files example_world (ascii ''signed_declaration.pdf'') \<noteq> Some Directory"
    by (simp_all add: example_files)
  have nz: "fst (raster_size example_env (mediabox \<lparr>mediabox = (612, 792), content = Original 0\<rparr>)) \<noteq> 0"
    "snd (raster_size example_env (mediabox \<lparr>mediabox = (612, 792), content = Original 0\<rparr>)) \<noteq> 0"
    by (simp_all add: example_raster)
  have c: "ascii ''israeli'' \<noteq> ascii ''foreigner''" "ascii ''israeli'' \<noteq> ascii ''company''"
    by (simp_all add: ascii_def)
  have pasted: "paste_signatures (ascii ''israeli'') (resize (600, 600) (Img 1 (300, 120) Mode_RGBA))
        (resize (650, 650) (Img 2 (400, 400) Mode_RGBA)) b
      = Inr (Pasted (Pasted b (Img 1 (600, 600) Mode_RGBA) (350, 1320) (Img 1 (600, 600) Mode_RGBA))
               (Img 2 (650, 650) Mode_RGBA) (- 30, 1650) (Img 2 (650, 650) Mode_RGBA))" for b
    using c by (simp add: paste_signatures_eq) (simp add: resize_def mask_ok_def)
  from sign_declaration_ok [where env = example_env and w = example_world
      and input_pdf_path = "ascii ''in.pdf''" and output_folder = "ascii ''out''"
      and out = "ascii ''out/final_output_with_signature.pdf''"
      and name = "[0x5D0, 0x5D1, 0x5D9]" and id_number = "ascii ''123456789''"
      and declarator_gender = "ascii ''male''" and declaration_type = "ascii ''israeli''",
      OF e(1) example_files(1) e(3) o(2) example_paths(1) [symmetric] e(3) o(1) e(2)
         example_files(3) [folded example_paths(2), folded e(4)]
         example_files(4) [folded example_paths(3), folded e(4)] nz refl pasted refl]
  show ?thesis
    by (simp add: e(5,6) t f l rasterize_def bitmap_page_def example_raster)
qed

text \<open>
  Claim C4. On the one-page letter-size source, with the name alef-bet-yod, the identifier
  \<open>123456789\<close>, the category \<open>israeli\<close> and the gender \<open>male\<close>, the pipeline returns
  the path \<open>out/final_output_with_signature.pdf\<close> and the file there has one page, as
  the source has. The page is 595.28 wide and 327404 / 425 (about 770.36) high, which
  is not 841.89: the page was 1700 by 2200 before the scaling by 595.28 / 1700.
\<close>

theorem sign_declaration_letter_source:
  "\<exists>w' c. sign_declaration example_env [0x5D0, 0x5D1, 0x5D9] (ascii ''123456789'') (ascii ''in.pdf'')
             (ascii ''out'') (ascii ''israeli'') (ascii ''male'') example_world
           = (Inr (ascii ''out/final_output_with_signature.pdf''), w')
     \<and> files w' (ascii ''out/final_output_with_signature.pdf'')
         = Some (PdfFile [\<lparr>mediabox = (595.28, 327404 / 425), content = c\<rparr>])
     \<and> (327404 / 425 :: real) \<noteq> 841.89"
  by (simp add: example_run scale_by_def bitmap_page_def)

text \<open>
  Claim C8. In every run that starts with a file at the output path, the changes made to
  the file system are an initial part of: writing the intermediate file, removing the
  file at the output path, writing the output (the stamper), writing the output again
  (the size normalizer). So the old file is removed before the output is first written,
  and nothing else is ever removed. When the run succeeds it made all four changes and
  returns the output path, the intermediate file is still there, and the files are
  those that the same run leaves when it starts without the old file (the source being
  another file than the old output): nothing of the old file is left.
\<close>

theorem sign_declaration_predeletion:
  fixes env :: env and w w' :: world
  assumes run: "sign_declaration env name id_number input_pdf_path output_folder declaration_type
                  declarator_gender w = (r, w')"
    and out: "out = os_path_join output_folder (ascii ''final_output_with_signature.pdf'')"
    and present: "os_path_isfile out w"
  shows "\<exists>ops. oplog w' = oplog w @ ops
           \<and> prefix ops [Wrote (ascii ''signed_declaration.pdf''), Removed out, Wrote out, Wrote out]
           \<and> (\<forall>path. r = Inr path \<longrightarrow>
                 path = out
                 \<and> ops = [Wrote (ascii ''signed_declaration.pdf''), Removed out, Wrote out, Wrote out]
                 \<and> (\<exists>merged final. files w' = (files w)(ascii ''signed_declaration.pdf'' \<mapsto> PdfFile [merged],
                                                            out \<mapsto> PdfFile [final]))
                 \<and> (input_pdf_path \<noteq> out \<longrightarrow>
                      sign_declaration env name id_number input_pdf_path output_folder declaration_type
                        declarator_gender (w\<lparr>files := (files w)(out := None)\<rparr>)
                      = (Inr out, w'\<lparr>oplog := oplog w @ [Wrote (ascii ''signed_declaration.pdf''),
                                                            Wrote out, Wrote out]\<rparr>)))"
proof -
  let ?I = "ascii ''signed_declaration.pdf''"
  let ?S1 = "os_path_join (signatures_dir env) (ascii ''placeholder_signature_1.png'')"
  let ?S2 = "os_path_join (signatures_dir env) (ascii ''placeholder_signature_2.png'')"
  let ?full = "[Wrote ?I, Removed out, Wrote out, Wrote out]"
  have ne: "out \<noteq> ?I" "?S1 \<noteq> out" "?S2 \<noteq> out"
    using output_not_intermediate signature_paths_distinct by (simp_all add: out)
  from sign_declaration_cases [OF run out] show ?thesis
  proof (elim disjE exE conjE)
    fix e ops
    assume r: "r = Inl e" and l: "oplog w' = oplog w @ ops"
      and p: "prefix ops ([Wrote ?I] @ (if os_path_isfile out w then [Removed out] else []) @ [Wrote out])"
    from p present have "prefix ops [Wrote ?I, Removed out, Wrote out]" by simp
    moreover have "prefix [Wrote ?I, Removed out, Wrote out] ?full" by simp
    ultimately have "prefix ops ?full" by (rule prefix_order.trans)
    with r l show ?thesis by auto
  next
    fix p ps image1 image2 page0
    assume r: "r = Inr out" and font: "arial_ttf_ok env"
      and src: "files w input_pdf_path = Some (PdfFile (p # ps))"
      and nz: "fst (raster_size env (mediabox p)) \<noteq> 0" "snd (raster_size env (mediabox p)) \<noteq> 0"
      and wi: "writable env ?I" "files w ?I \<noteq> Some Directory"
      and wo: "writable env out" "files w out \<noteq> Some Directory"
      and pop: "poppler_ok env"
      and s1: "files w ?S1 = Some (ImageFile image1)"
      and s2: "files w ?S2 = Some (ImageFile image2)"
      and pasted: "paste_signatures declaration_type (resize (600, 600) image1) (resize (650, 650) image2)
                         (rasterize env (p\<lparr>content := Over (content p)
                            (Drawn (draw_lines env (today env) 300
                               (declaration_text_lines
                                  (dict_get gender_terms (str_lower (unicode_lower env) declarator_gender)
                                     male_terms)
                                  (today env) name (rev id_number))))\<rparr>))
                       = Inr page0"
    define merged where "merged = p\<lparr>content := Over (content p)
        (Drawn (draw_lines env (today env) 300
           (declaration_text_lines (dict_get gender_terms (str_lower (unicode_lower env) declarator_gender) male_terms)
              (today env) name (rev id_number))))\<rparr>"
    note pasted' = pasted [folded merged_def]
    define stamped where "stamped = bitmap_page page0"
    define final where "final = scale_by (595.28 / fst (mediabox stamped)) stamped"
    from sign_declaration_ok [OF font src wi out wo pop s1 s2 nz merged_def pasted' stamped_def] run present
    have w': "w' = w\<lparr>files := (files w)(?I \<mapsto> PdfFile [merged], out \<mapsto> PdfFile [final]),
        oplog := oplog w @ ?full, arial_registered := True\<rparr>"
      by (simp add: final_def)
    have clean: "sign_declaration env name id_number input_pdf_path output_folder declaration_type
                        declarator_gender (w\<lparr>files := (files w)(out := None)\<rparr>)
                      = (Inr out, w'\<lparr>oplog := oplog w @ [Wrote ?I, Wrote out, Wrote out]\<rparr>)"
      if d: "input_pdf_path \<noteq> out"
    proof -
      let ?w = "w\<lparr>files := (files w)(out := None)\<rparr>"
      have src': "files ?w input_pdf_path = Some (PdfFile (p # ps))" using src d by simp
      have wi': "files ?w ?I \<noteq> Some Directory" using wi ne by simp
      have wo': "files ?w out \<noteq> Some Directory" by simp
      have s1': "files ?w ?S1 = Some (ImageFile image1)" using s1 ne by simp
      have s2': "files ?w ?S2 = Some (ImageFile image2)" using s2 ne by simp
      have nf: "\<not> os_path_isfile out ?w" by (simp add: os_path_isfile_def)
      have fe: "(files w)(out := None, ?I \<mapsto> PdfFile [merged], out \<mapsto> PdfFile [final])
          = (files w)(?I \<mapsto> PdfFile [merged], out \<mapsto> PdfFile [final])"
        using ne by (auto simp: fun_eq_iff)
      from sign_declaration_ok [OF font src' wi(1) wi' out wo(1) wo' pop s1' s2' nz merged_def pasted' stamped_def] nf
      show ?thesis by (simp add: w' final_def fe)
    qed
    from r w' clean show ?thesis by auto
  qed
qed

theorem sign_declaration_predeletion_witness:
  "ascii ''out/final_output_with_signature.pdf''
     = os_path_join (ascii ''out'') (ascii ''final_output_with_signature.pdf'')
   \<and> os_path_isfile (ascii ''out/final_output_with_signature.pdf'') example_world
   \<and> oplog (snd (sign_declaration example_env [0x5D0, 0x5D1, 0x5D9] (ascii ''123456789'') (ascii ''in.pdf'')
             (ascii ''out'') (ascii ''israeli'') (ascii ''male'') example_world))
       = [Wrote (ascii ''signed_declaration.pdf''), Removed (ascii ''out/final_output_with_signature.pdf''),
          Wrote (ascii ''out/final_output_with_signature.pdf''),
          Wrote (ascii ''out/final_output_with_signature.pdf'')]"
proof -
  let ?run = "sign_declaration example_env [0x5D0, 0x5D1, 0x5D9] (ascii ''123456789'') (ascii ''in.pdf'')
             (ascii ''out'') (ascii ''israeli'') (ascii ''male'') example_world"
  have f: "os_path_isfile (ascii ''out/final_output_with_signature.pdf'') example_world"
    by (simp add: os_path_isfile_def example_files)
  have r: "fst ?run = Inr (ascii ''out/final_output_with_signature.pdf'')"
    by (simp add: example_run)
  have l: "oplog example_world = []" by (simp add: example_world_def)
  have "?run = (fst ?run, snd ?run)" by simp
  from sign_declaration_predeletion [OF this example_paths(1) [symmetric] f] r l
  have "oplog (snd ?run) = [Wrote (ascii ''signed_declaration.pdf''),
          Removed (ascii ''out/final_output_with_signature.pdf''),
          Wrote (ascii ''out/final_output_with_signature.pdf''),
          Wrote (ascii ''out/final_output_with_signature.pdf'')]"
    by auto
  with f example_paths(1) show ?thesis by simp
qed

end
